theory Spec2Isabelle
  imports Main "HOL-Library.Multiset"
begin

section \<open>Python values used by the bot\<close>

text \<open>
  The bot is one Python class, \<^verbatim>\<open>OntarioTechBot\<close>, over an SQLite file and a Selenium
  driver. Text is modelled as \<^typ>\<open>string\<close>, one \<^typ>\<open>char\<close> per code point, so the
  model covers text whose code points are below 256. Python's \<^verbatim>\<open>int\<close> is \<^typ>\<open>int\<close>.
  An exception that a call can raise is a value of \<open>exn\<close>; a call that can raise returns
  \<open>exn + 'a\<close>, with \<open>Inl\<close> for the raise.
\<close>

datatype exn =
    ValueError
  | IndexError
  | WebDriverException string

subsection \<open>\<^verbatim>\<open>int(text)\<close>\<close>

text \<open>
  \<^verbatim>\<open>int(s)\<close> on a \<^verbatim>\<open>str\<close>, base 10, as CPython reads it: white space on both sides
  is skipped, one sign is allowed, then come decimal digits in which single underscores
  may separate digits. Below code point 256 the white space characters are
  \<^verbatim>\<open>\t \n \v \f \r\<close>, the space, U+0085 and U+00A0, and the only decimal digits are
  \<^verbatim>\<open>0\<close> to \<^verbatim>\<open>9\<close>. A literal with more digits than the interpreter's limit
  (\<^verbatim>\<open>sys.int_info.default_max_str_digits\<close>, 4300, which the program never changes)
  raises \<^verbatim>\<open>ValueError\<close> like any other rejected text.
\<close>

definition is_digit :: "char \<Rightarrow> bool" where
  "is_digit c \<longleftrightarrow> c \<in> set ''0123456789''"

definition digit_value :: "char \<Rightarrow> int" where
  "digit_value c = int (of_char c) - 48"

definition is_space :: "char \<Rightarrow> bool" where
  "is_space c \<longleftrightarrow> (of_char c :: nat) \<in> {9, 10, 11, 12, 13, 32, 133, 160}"

definition int_max_str_digits :: nat where
  "int_max_str_digits = 4300"

text \<open>
  The shape of the digit part: \<open>prev_digit\<close> says whether the character just read was a
  digit. An underscore is accepted only right after a digit, and the text may end only
  right after a digit.
\<close>

fun numeral_shape :: "bool \<Rightarrow> string \<Rightarrow> bool" where
  "numeral_shape prev_digit [] = prev_digit"
| "numeral_shape prev_digit (c # cs) =
     (if is_digit c then numeral_shape True cs
      else c = CHR ''_'' \<and> prev_digit \<and> numeral_shape False cs)"

definition decimal :: "string \<Rightarrow> int" where
  "decimal ds = foldl (\<lambda>n c. 10 * n + digit_value c) 0 ds"

definition py_int :: "string \<Rightarrow> exn + int" where
  "py_int s =
     (let t = dropWhile is_space s;
          negative = (case t of [] \<Rightarrow> False | c # _ \<Rightarrow> c = CHR ''-'');
          u = (case t of [] \<Rightarrow> [] | c # r \<Rightarrow> if c = CHR ''-'' \<or> c = CHR ''+'' then r else t);
          body = takeWhile (\<lambda>c. is_digit c \<or> c = CHR ''_'') u;
          rest = dropWhile is_space (dropWhile (\<lambda>c. is_digit c \<or> c = CHR ''_'') u);
          ds = filter is_digit body
      in if numeral_shape False body \<and> rest = [] \<and> length ds \<le> int_max_str_digits
         then Inr (if negative then - decimal ds else decimal ds)
         else Inl ValueError)"

subsection \<open>\<^verbatim>\<open>str.split(sep)\<close> and indexing\<close>

text \<open>
  \<^verbatim>\<open>s.split("/")\<close> cuts at every separator and always returns at least one part;
  \<^verbatim>\<open>parts[i]\<close> raises \<^verbatim>\<open>IndexError\<close> past the end.
\<close>

fun split :: "char \<Rightarrow> string \<Rightarrow> string list" where
  "split sep [] = [[]]"
| "split sep (c # cs) =
     (if c = sep then [] # split sep cs
      else (c # hd (split sep cs)) # tl (split sep cs))"

definition item :: "'a list \<Rightarrow> nat \<Rightarrow> exn + 'a" where
  "item xs i = (if i < length xs then Inr (xs ! i) else Inl IndexError)"

section \<open>The availability parser\<close>

text \<open>
  \<^verbatim>\<open>
  def parse_availability(self, availability_text: str) -> tuple:
      try:
          parts = availability_text.split("/")
          available = int(parts[0])
          total = int(parts[1])
          return available, total
      except:
          return 0, 0
  \<close>
  \<open>parse_availability_try\<close> is the body of the \<^verbatim>\<open>try\<close>, with its raises as \<open>Inl\<close>;
  \<open>parse_availability\<close> adds the handler.
\<close>

definition parse_availability_try :: "string \<Rightarrow> exn + int \<times> int" where
  "parse_availability_try availability_text =
     (let parts = split (CHR ''/'') availability_text in
      case item parts 0 of Inl e \<Rightarrow> Inl e | Inr p0 \<Rightarrow>
       (case py_int p0 of Inl e \<Rightarrow> Inl e | Inr available \<Rightarrow>
         (case item parts 1 of Inl e \<Rightarrow> Inl e | Inr p1 \<Rightarrow>
           (case py_int p1 of Inl e \<Rightarrow> Inl e | Inr total' \<Rightarrow>
              Inr (available, total')))))"

definition parse_availability :: "string \<Rightarrow> int \<times> int" where
  "parse_availability availability_text =
     (case parse_availability_try availability_text of
        Inr r \<Rightarrow> r
      | Inl e \<Rightarrow> (0, 0))"

section \<open>The database\<close>

text \<open>
  \<^verbatim>\<open>Course\<close> is the dataclass of the source. \<^verbatim>\<open>setup_database\<close> creates two tables:
  \<^verbatim>\<open>
  CREATE TABLE IF NOT EXISTS courses (
      id INTEGER PRIMARY KEY AUTOINCREMENT,
      code TEXT UNIQUE,
      name TEXT, credits INTEGER, available_spots INTEGER, total_spots INTEGER,
      instructor TEXT, schedule TEXT, prerequisites TEXT, status TEXT,
      last_updated TIMESTAMP DEFAULT CURRENT_TIMESTAMP)
  CREATE TABLE IF NOT EXISTS user_watchlist (
      id INTEGER PRIMARY KEY AUTOINCREMENT,
      course_code TEXT,
      priority INTEGER,
      auto_register BOOLEAN DEFAULT 0,
      added_date TIMESTAMP DEFAULT CURRENT_TIMESTAMP)
  \<close>
  A row of \<^verbatim>\<open>courses\<close> is a \<open>Course\<close> with the two columns the database fills in.
  A table is the list of its rows in the order a scan of the table yields them, which
  is the order of the row ids. Beside each table stands the largest row id ever given
  in it (SQLite's \<^verbatim>\<open>sqlite_sequence\<close>), since \<^verbatim>\<open>AUTOINCREMENT\<close> never gives an id
  twice. Only \<^verbatim>\<open>courses.code\<close> is declared \<^verbatim>\<open>UNIQUE\<close>; \<^verbatim>\<open>user_watchlist\<close> has no
  constraint but its primary key. Time stamps are natural numbers (seconds).
  Database calls are taken to succeed.
\<close>

record Course =
  code :: string
  name :: string
  credits :: int
  available_spots :: int
  total_spots :: int
  instructor :: string
  schedule :: string
  prerequisites :: string
  status :: string

record course_row = Course +
  row_id :: nat
  last_updated :: nat

record watch_row =
  watch_id :: nat
  course_code :: string
  priority :: int
  auto_register :: bool
  added_date :: nat

record database =
  courses :: "course_row list"
  courses_seq :: nat
  user_watchlist :: "watch_row list"
  user_watchlist_seq :: nat

text \<open>
  \<^verbatim>\<open>CREATE TABLE IF NOT EXISTS\<close> leaves the tables of an existing file as they are and
  makes empty ones otherwise.
\<close>

definition setup_database :: "database option \<Rightarrow> database" where
  "setup_database existing =
     (case existing of
        Some d \<Rightarrow> d
      | None \<Rightarrow> \<lparr>courses = [], courses_seq = 0, user_watchlist = [], user_watchlist_seq = 0\<rparr>)"

text \<open>The id \<^verbatim>\<open>AUTOINCREMENT\<close> gives a new row: one more than every id seen so far.\<close>

definition next_rowid :: "nat \<Rightarrow> nat list \<Rightarrow> nat" where
  "next_rowid seq ids = fold max ids seq + 1"

text \<open>
  \<^verbatim>\<open>
  INSERT OR REPLACE INTO courses
  (code, name, credits, available_spots, total_spots, instructor, schedule, prerequisites, status)
  VALUES (?, ?, ?, ?, ?, ?, ?, ?, ?)
  \<close>
  The statement deletes the rows that clash with the new one on a \<^verbatim>\<open>UNIQUE\<close> column,
  here the rows with the same \<^verbatim>\<open>code\<close>, and then inserts the new row under a new id.
  \<open>clock i\<close> is the value of \<^verbatim>\<open>CURRENT_TIMESTAMP\<close> when the row with id \<open>i\<close> is
  inserted.
\<close>

definition insert_or_replace_course :: "(nat \<Rightarrow> nat) \<Rightarrow> Course \<Rightarrow> database \<Rightarrow> database" where
  "insert_or_replace_course clock course d =
     (let i = next_rowid (courses_seq d) (map row_id (courses d));
          kept = filter (\<lambda>r. code r \<noteq> code course) (courses d)
      in d\<lparr>courses := kept @ [Course.extend course (course_row.fields i (clock i))],
            courses_seq := i\<rparr>)"

text \<open>
  \<^verbatim>\<open>
  def save_courses_to_db(self, courses: List[Course]):
      for course in courses:
          cursor.execute('''INSERT OR REPLACE INTO courses ...''', (course.code, ...))
  \<close>
\<close>

definition save_courses_to_db :: "(nat \<Rightarrow> nat) \<Rightarrow> Course list \<Rightarrow> database \<Rightarrow> database" where
  "save_courses_to_db clock courses' d = fold (insert_or_replace_course clock) courses' d"

text \<open>
  \<^verbatim>\<open>
  def get_watchlist_courses(self) -> List[str]:
      cursor.execute("SELECT course_code FROM user_watchlist ORDER BY priority")
      watchlist = [row[0] for row in cursor.fetchall()]
      return watchlist
  \<close>
  \<open>watchlist_by_priority\<close> is the row order of the query. The query names one sort key;
  among rows of equal priority SQLite's sorter keeps the order of the table scan,
  which \<open>sort_key\<close> does as well.
\<close>

definition watchlist_by_priority :: "database \<Rightarrow> watch_row list" where
  "watchlist_by_priority d = sort_key priority (user_watchlist d)"

definition get_watchlist_courses :: "database \<Rightarrow> string list" where
  "get_watchlist_courses d = map course_code (watchlist_by_priority d)"

text \<open>
  \<^verbatim>\<open>
  def add_to_watchlist(self, course_code: str, priority: int = 1, auto_register: bool = False):
      cursor.execute('''
          INSERT OR REPLACE INTO user_watchlist (course_code, priority, auto_register)
          VALUES (?, ?, ?)''', (course_code, priority, auto_register))
  \<close>
  An argument the caller leaves out is \<open>None\<close> and takes the default of the signature.
  No column named in the statement is \<^verbatim>\<open>UNIQUE\<close> and the id is a new one, so no row
  clashes with the new row and none is deleted.
\<close>

definition add_to_watchlist ::
  "(nat \<Rightarrow> nat) \<Rightarrow> string \<Rightarrow> int option \<Rightarrow> bool option \<Rightarrow> database \<Rightarrow> database" where
  "add_to_watchlist clock course_code' priority' auto_register' d =
     (let i = next_rowid (user_watchlist_seq d) (map watch_id (user_watchlist d))
      in d\<lparr>user_watchlist := user_watchlist d @
              [\<lparr>watch_id = i,
                course_code = course_code',
                priority = (case priority' of None \<Rightarrow> 1 | Some p \<Rightarrow> p),
                auto_register = (case auto_register' of None \<Rightarrow> False | Some b \<Rightarrow> b),
                added_date = clock i\<rparr>],
            user_watchlist_seq := i\<rparr>)"

text \<open>
  \<^verbatim>\<open>
  def check_course_availability(self, course_code: str) -> Optional[Course]:
      cursor.execute("SELECT * FROM courses WHERE code = ?", (course_code,))
      row = cursor.fetchone()
      if row:
          return Course(code=row[1], name=row[2], ..., status=row[9])
      return None
  \<close>
\<close>

definition check_course_availability :: "string \<Rightarrow> database \<Rightarrow> Course option" where
  "check_course_availability course_code' d =
     (case filter (\<lambda>r. code r = course_code') (courses d) of
        [] \<Rightarrow> None
      | row # _ \<Rightarrow> Some (Course.truncate row))"

text \<open>
  \<^verbatim>\<open>
  def remove_from_watchlist(self, course_code: str):
      cursor.execute("DELETE FROM user_watchlist WHERE course_code = ?", (course_code,))
  \<close>
\<close>

definition remove_from_watchlist :: "string \<Rightarrow> database \<Rightarrow> database" where
  "remove_from_watchlist course_code' d =
     d\<lparr>user_watchlist := filter (\<lambda>r. course_code r \<noteq> course_code') (user_watchlist d)\<rparr>"

section \<open>The portal driver\<close>

text \<open>
  The Selenium driver and the pages it meets are outside the program. What the driver
  does in one call of a method is given to the model as data: for every lookup whether
  it raises, and the text it finds.

  \<^verbatim>\<open>
  def attempt_registration(self, course_code: str) -> bool:
      try:
          register_button = self.driver.find_element(By.CSS_SELECTOR,
              f"[data-course-code='{course_code}'] .register-btn")
          register_button.click()
          wait = WebDriverWait(self.driver, 10)
          try:
              success_message = wait.until(EC.presence_of_element_located(
                  (By.CLASS_NAME, "success-message")))
              print(f"Successfully registered for {course_code}")
              return True
          except:
              error_message = self.driver.find_element(By.CLASS_NAME, "error-message")
              print(f"Registration failed for {course_code}: {error_message.text}")
              return False
      except Exception as e:
          print(f"Registration attempt failed: {e}")
          return False
  \<close>
  \<open>registration_page\<close> is what the driver meets during one such call:
  \<^item> \<open>find_register_btn\<close>: the exception of the first \<^verbatim>\<open>find_element\<close>, if it raises;
  \<^item> \<open>click_register_btn\<close>: the exception of \<^verbatim>\<open>click\<close>, if it raises;
  \<^item> \<open>wait_success_message\<close>: the exception of \<^verbatim>\<open>wait.until\<close> (the time-out after ten
    seconds without a success message), if it raises;
  \<^item> \<open>find_error_message\<close>: the text of the error message element, or the exception of
    looking it up.

  Each \<^verbatim>\<open>print\<close> of the method is a \<open>message\<close>. The method returns its boolean and
  the lines it printed.
\<close>

record registration_page =
  find_register_btn :: "exn option"
  click_register_btn :: "exn option"
  wait_success_message :: "exn option"
  find_error_message :: "exn + string"

datatype message =
    Registered string
  | RegistrationFailed string string
  | AttemptFailed exn

definition attempt_registration_try :: "string \<Rightarrow> registration_page \<Rightarrow> exn + bool \<times> message list" where
  "attempt_registration_try course_code' page =
     (case find_register_btn page of
        Some e \<Rightarrow> Inl e
      | None \<Rightarrow>
         (case click_register_btn page of
            Some e \<Rightarrow> Inl e
          | None \<Rightarrow>
             (case wait_success_message page of
                None \<Rightarrow> Inr (True, [Registered course_code'])
              | Some e \<Rightarrow>
                 (case find_error_message page of
                    Inl e' \<Rightarrow> Inl e'
                  | Inr reason \<Rightarrow> Inr (False, [RegistrationFailed course_code' reason])))))"

definition attempt_registration :: "string \<Rightarrow> registration_page \<Rightarrow> bool \<times> message list" where
  "attempt_registration course_code' page =
     (case attempt_registration_try course_code' page of
        Inr result \<Rightarrow> result
      | Inl e \<Rightarrow> (False, [AttemptFailed e]))"

text \<open>
  \<^verbatim>\<open>
  def scrape_course_data(self, term: str, subject: str = None):
      courses = []
      try:
          course_rows = self.driver.find_elements(By.CSS_SELECTOR, ".course-row")
          for row in course_rows:
              try:
                  code = row.find_element(By.CSS_SELECTOR, ".course-code").text
                  name = row.find_element(By.CSS_SELECTOR, ".course-name").text
                  credits = int(row.find_element(By.CSS_SELECTOR, ".credits").text)
                  availability_text = row.find_element(By.CSS_SELECTOR, ".availability").text
                  available_spots, total_spots = self.parse_availability(availability_text)
                  instructor = row.find_element(By.CSS_SELECTOR, ".instructor").text
                  schedule = row.find_element(By.CSS_SELECTOR, ".schedule").text
                  status = row.find_element(By.CSS_SELECTOR, ".status").text
                  course = Course(code=code, ..., prerequisites="", status=status)
                  courses.append(course)
              except Exception as e:
                  continue
      except Exception as e:
          pass
      return courses
  \<close>
  A \<open>row_element\<close> holds the seven texts of one \<^verbatim>\<open>.course-row\<close> element, each with the
  exception of its lookup where that raises. The method reads neither of its
  arguments.
\<close>

record row_element =
  course_code_text :: "exn + string"
  course_name_text :: "exn + string"
  credits_text :: "exn + string"
  availability_text :: "exn + string"
  instructor_text :: "exn + string"
  schedule_text :: "exn + string"
  status_text :: "exn + string"

definition scrape_row :: "row_element \<Rightarrow> exn + Course" where
  "scrape_row row =
     (case course_code_text row of Inl e \<Rightarrow> Inl e | Inr code' \<Rightarrow>
     (case course_name_text row of Inl e \<Rightarrow> Inl e | Inr name' \<Rightarrow>
     (case credits_text row of Inl e \<Rightarrow> Inl e | Inr credits_shown \<Rightarrow>
     (case py_int credits_shown of Inl e \<Rightarrow> Inl e | Inr credits' \<Rightarrow>
     (case availability_text row of Inl e \<Rightarrow> Inl e | Inr availability \<Rightarrow>
     (case instructor_text row of Inl e \<Rightarrow> Inl e | Inr instructor' \<Rightarrow>
     (case schedule_text row of Inl e \<Rightarrow> Inl e | Inr schedule' \<Rightarrow>
     (case status_text row of Inl e \<Rightarrow> Inl e | Inr status' \<Rightarrow>
        Inr \<lparr>code = code', name = name', credits = credits',
             available_spots = fst (parse_availability availability),
             total_spots = snd (parse_availability availability),
             instructor = instructor', schedule = schedule',
             prerequisites = [], status = status'\<rparr>))))))))"

fun scrape_rows :: "row_element list \<Rightarrow> Course list" where
  "scrape_rows [] = []"
| "scrape_rows (row # course_rows) =
     (case scrape_row row of
        Inl e \<Rightarrow> scrape_rows course_rows
      | Inr course \<Rightarrow> course # scrape_rows course_rows)"

definition scrape_course_data :: "exn + row_element list \<Rightarrow> Course list" where
  "scrape_course_data found =
     (case found of
        Inl e \<Rightarrow> []
      | Inr course_rows \<Rightarrow> scrape_rows course_rows)"

text \<open>
  The surroundings of a run. \<open>driver_calls\<close> of the session counts the calls made to
  the driver so far, and the surroundings say what the driver meets at each:
  \<^item> \<open>on_refresh k\<close>: the exception of \<^verbatim>\<open>driver.refresh()\<close>, if it raises;
  \<^item> \<open>on_scrape k\<close>: the rows \<^verbatim>\<open>find_elements\<close> returns, or its exception;
  \<^item> \<open>on_register k\<close>: the page met by \<^verbatim>\<open>attempt_registration\<close>;
  \<^item> \<open>courses_clock\<close>, \<open>watchlist_clock\<close>: the time stamp of the insertion that makes
    the row with a given id in the two tables;
  \<^item> \<open>str_upper\<close>: Python's \<^verbatim>\<open>str.upper\<close>, whose result on text beyond ASCII need not
    stay below code point 256.
\<close>

record surroundings =
  on_refresh :: "nat \<Rightarrow> exn option"
  on_scrape :: "nat \<Rightarrow> exn + row_element list"
  on_register :: "nat \<Rightarrow> registration_page"
  courses_clock :: "nat \<Rightarrow> nat"
  watchlist_clock :: "nat \<Rightarrow> nat"
  str_upper :: "string \<Rightarrow> string"

record session =
  store :: database
  driver_calls :: nat

section \<open>The monitoring loop\<close>

text \<open>
  \<^verbatim>\<open>
  def monitor_and_register(self, max_attempts: int = 100, delay: int = 30):
      attempt = 0
      while attempt < max_attempts:
          print(f"Monitoring attempt {attempt + 1}/{max_attempts}")
          self.driver.refresh()
          courses = self.scrape_course_data(term="Winter 2025")
          self.save_courses_to_db(courses)
          watchlist = self.get_watchlist_courses()
          for course_code in watchlist:
              course = self.check_course_availability(course_code)
              if course and course.available_spots > 0:
                  print(f"{course_code} is available! Attempting registration...")
                  if self.attempt_registration(course_code):
                      self.remove_from_watchlist(course_code)
          attempt += 1
          if attempt < max_attempts:
              print(f"Waiting {delay} seconds before next check...")
              time.sleep(delay)
  \<close>
  A run yields the list of its events, in order: the line that opens an iteration, the
  refresh of the page, each call of \<^verbatim>\<open>attempt_registration\<close> with the lines it
  prints, and each sleep. Other console output is left out.
\<close>

datatype event =
    Monitoring int int
  | Refresh
  | Attempt string
  | Say message
  | Sleep int

text \<open>
  The \<^verbatim>\<open>for\<close> loop over the list that \<^verbatim>\<open>get_watchlist_courses\<close> returned. A
  \<^verbatim>\<open>Course\<close> object is true in a condition, so \<^verbatim>\<open>course and ...\<close> asks only whether a
  row was found.
\<close>

fun monitor_scan :: "surroundings \<Rightarrow> string list \<Rightarrow> session \<Rightarrow> event list \<times> session" where
  "monitor_scan w [] s = ([], s)"
| "monitor_scan w (course_code' # watchlist) s =
     (case check_course_availability course_code' (store s) of
        None \<Rightarrow> monitor_scan w watchlist s
      | Some course \<Rightarrow>
          if available_spots course > 0 then
            (let (registered, said) = attempt_registration course_code' (on_register w (driver_calls s));
                 s1 = s\<lparr>driver_calls := driver_calls s + 1\<rparr>;
                 s2 = (if registered
                       then s1\<lparr>store := remove_from_watchlist course_code' (store s1)\<rparr>
                       else s1);
                 (later, s3) = monitor_scan w watchlist s2
             in (Attempt course_code' # map Say said @ later, s3))
          else monitor_scan w watchlist s)"

text \<open>
  The body of the \<^verbatim>\<open>while\<close> loop from the refresh to the end of the \<^verbatim>\<open>for\<close> loop.
  \<^verbatim>\<open>driver.refresh()\<close> stands outside every \<^verbatim>\<open>try\<close>, so its exception leaves the
  method.
\<close>

definition monitor_iteration :: "surroundings \<Rightarrow> session \<Rightarrow> exn + event list \<times> session" where
  "monitor_iteration w s =
     (case on_refresh w (driver_calls s) of
        Some e \<Rightarrow> Inl e
      | None \<Rightarrow>
          (let s1 = s\<lparr>driver_calls := driver_calls s + 1\<rparr>;
               scraped = scrape_course_data (on_scrape w (driver_calls s1));
               s2 = s1\<lparr>driver_calls := driver_calls s1 + 1,
                       store := save_courses_to_db (courses_clock w) scraped (store s1)\<rparr>;
               watchlist = get_watchlist_courses (store s2);
               (acted, s3) = monitor_scan w watchlist s2
           in Inr (Refresh # acted, s3)))"

text \<open>
  The \<^verbatim>\<open>while\<close> loop, from the test of its condition. \<^verbatim>\<open>time.sleep\<close> raises
  \<^verbatim>\<open>ValueError\<close> on a negative length. The result says which exception left the
  method, if one did; the session is then the one in which the exception was raised.
\<close>

function monitor_loop ::
  "surroundings \<Rightarrow> int \<Rightarrow> int \<Rightarrow> int \<Rightarrow> session \<Rightarrow> exn option \<times> event list \<times> session" where
  "monitor_loop w max_attempts delay attempt s =
     (if attempt < max_attempts then
        (case monitor_iteration w s of
           Inl e \<Rightarrow> (Some e, [Monitoring (attempt + 1) max_attempts], s)
         | Inr (acted, s') \<Rightarrow>
             (let attempt' = attempt + 1
              in if attempt' < max_attempts \<and> delay < 0
                 then (Some ValueError, Monitoring (attempt + 1) max_attempts # acted, s')
                 else
                   (let pause = (if attempt' < max_attempts then [Sleep delay] else []);
                        (raised, later, s'') = monitor_loop w max_attempts delay attempt' s'
                    in (raised, Monitoring (attempt + 1) max_attempts # acted @ pause @ later, s''))))
      else (None, [], s))"
  by pat_completeness auto
termination
  by (relation "measure (\<lambda>(w, max_attempts, delay, attempt, s). nat (max_attempts - attempt))") auto

declare monitor_loop.simps [simp del]

definition monitor_and_register ::
  "surroundings \<Rightarrow> int option \<Rightarrow> int option \<Rightarrow> session \<Rightarrow> exn option \<times> event list \<times> session" where
  "monitor_and_register w max_attempts delay s =
     monitor_loop w (case max_attempts of None \<Rightarrow> 100 | Some n \<Rightarrow> n)
                    (case delay of None \<Rightarrow> 30 | Some d \<Rightarrow> d) 0 s"

section \<open>The interactive menu\<close>



section \<open>Observations used in the statements\<close>



text \<open>
  The condition of the loop in \<^verbatim>\<open>monitor_and_register\<close>,
  \<^verbatim>\<open>course and course.available_spots > 0\<close>.
\<close>

definition has_open_spots :: "string \<Rightarrow> database \<Rightarrow> bool" where
  "has_open_spots course_code' d =
     (case check_course_availability course_code' d of
        None \<Rightarrow> False
      | Some course \<Rightarrow> 0 < available_spots course)"

text \<open>The course codes for which a run called \<^verbatim>\<open>attempt_registration\<close>, in order.\<close>

fun attempts :: "event list \<Rightarrow> string list" where
  "attempts [] = []"
| "attempts (Attempt course_code' # es) = course_code' # attempts es"
| "attempts (e # es) = attempts es"


fun is_sleep :: "event \<Rightarrow> bool" where
  "is_sleep (Sleep d) = True"
| "is_sleep e = False"

text \<open>The line that opens an iteration.\<close>

fun is_opening :: "event \<Rightarrow> bool" where
  "is_opening (Monitoring k m) = True"
| "is_opening e = False"

text \<open>
  Every sleep of a run is directly followed by the line that opens a further
  iteration, one whose number does not pass \<open>n\<close>. A run that ends in a sleep does not
  have the property.
\<close>

fun sleeps_between :: "int \<Rightarrow> event list \<Rightarrow> bool" where
  "sleeps_between n [] = True"
| "sleeps_between n (Sleep d # es) =
     (case es of
        Monitoring k m # es' \<Rightarrow> k \<le> n \<and> sleeps_between n es
      | _ \<Rightarrow> False)"
| "sleeps_between n (e # es) = sleeps_between n es"

section \<open>Example data\<close>

text \<open>
  The concrete inputs at which the statements below are evaluated: a course with open
  spots, a clock that gives row \<open>i\<close> the time \<open>10 * i\<close>, and three pages that the
  driver can meet during a registration: one that confirms within the wait, one that
  shows an error message, and one that shows neither.
\<close>

definition example_course :: Course where
  "example_course =
     \<lparr>code = ''CSCI1030U'', name = ''Programming'', credits = 3, available_spots = 5,
      total_spots = 30, instructor = ''Staff'', schedule = ''Mon'', prerequisites = [],
      status = ''Open''\<rparr>"

definition example_clock :: "nat \<Rightarrow> nat" where
  "example_clock i = 10 * i"

definition confirming_page :: registration_page where
  "confirming_page =
     \<lparr>find_register_btn = None, click_register_btn = None, wait_success_message = None,
      find_error_message = Inl (WebDriverException ''no such element'')\<rparr>"

definition rejecting_page :: "string \<Rightarrow> registration_page" where
  "rejecting_page reason =
     \<lparr>find_register_btn = None, click_register_btn = None,
      wait_success_message = Some (WebDriverException ''timeout''),
      find_error_message = Inr reason\<rparr>"

definition silent_page :: registration_page where
  "silent_page =
     \<lparr>find_register_btn = None, click_register_btn = None,
      wait_success_message = Some (WebDriverException ''timeout''),
      find_error_message = Inl (WebDriverException ''no such element'')\<rparr>"

text \<open>
  A course row as the page shows it, and surroundings in which every refresh goes
  through, every scrape finds that row, and the registration pages are given by the
  number of the driver call.
\<close>

definition example_row :: row_element where
  "example_row =
     \<lparr>course_code_text = Inr ''CSCI1030U'', course_name_text = Inr ''Programming'',
      credits_text = Inr ''3'', availability_text = Inr ''5/30'',
      instructor_text = Inr ''Staff'', schedule_text = Inr ''Mon'',
      status_text = Inr ''Open''\<rparr>"

definition example_surroundings :: "(nat \<Rightarrow> registration_page) \<Rightarrow> surroundings" where
  "example_surroundings pages =
     \<lparr>on_refresh = (\<lambda>k. None), on_scrape = (\<lambda>k. Inr [example_row]), on_register = pages,
      courses_clock = example_clock, watchlist_clock = example_clock,
      str_upper = (\<lambda>line. line)\<rparr>"

text \<open>
  Two sessions over a database that holds the example course. In the first the
  watchlist has one row for it, added with \<^verbatim>\<open>auto_register=False\<close>; in the second
  the course was added twice.
\<close>

definition example_session :: session where
  "example_session =
     \<lparr>store = add_to_watchlist example_clock ''CSCI1030U'' (Some 1) (Some False)
                (save_courses_to_db example_clock [example_course] (setup_database None)),
      driver_calls = 0\<rparr>"

definition twice_added_session :: session where
  "twice_added_session =
     \<lparr>store = add_to_watchlist example_clock ''CSCI1030U'' (Some 1) None
                (add_to_watchlist example_clock ''CSCI1030U'' (Some 1) None
                  (save_courses_to_db example_clock [example_course] (setup_database None))),
      driver_calls = 0\<rparr>"

subsection \<open>Facts about the parser\<close>

lemma split_without_sep: "sep \<notin> set s \<Longrightarrow> split sep s = [s]"
  by (induction s) auto

lemma split_at_first_sep: "sep \<notin> set a \<Longrightarrow> split sep (a @ sep # b) = a # split sep b"
  by (induction a) auto

lemma is_digit_plain:
  "is_digit c \<Longrightarrow> \<not> is_space c \<and> c \<noteq> CHR ''-'' \<and> c \<noteq> CHR ''+'' \<and> c \<noteq> CHR ''/''"
  by (auto simp: is_digit_def is_space_def)

lemma digit_value_nonneg: "is_digit c \<Longrightarrow> 0 \<le> digit_value c"
  by (auto simp: is_digit_def digit_value_def)

lemma digits_without_slash: "list_all is_digit ds \<Longrightarrow> CHR ''/'' \<notin> set ds"
  using is_digit_plain by (auto simp: list_all_iff)

lemma numeral_shape_digits: "list_all is_digit ds \<Longrightarrow> numeral_shape p ds = (p \<or> ds \<noteq> [])"
  by (induction ds arbitrary: p) auto

lemma foldl_decimal_nonneg:
  "list_all is_digit ds \<Longrightarrow> 0 \<le> n \<Longrightarrow> 0 \<le> foldl (\<lambda>n c. 10 * n + digit_value c) n ds"
proof (induction ds arbitrary: n)
  case Nil
  then show ?case by simp
next
  case (Cons c ds)
  from Cons.prems have "0 \<le> 10 * n + digit_value c"
    using digit_value_nonneg [of c] by simp
  with Cons show ?case by simp
qed

lemma decimal_nonneg: "list_all is_digit ds \<Longrightarrow> 0 \<le> decimal ds"
  unfolding decimal_def by (rule foldl_decimal_nonneg) simp_all

lemma py_int_digits:
  assumes "ds \<noteq> []" and "list_all is_digit ds" and "length ds \<le> int_max_str_digits"
  shows "py_int ds = Inr (decimal ds)"
proof -
  from assms(1) obtain c cs where ds: "ds = c # cs" by (cases ds) auto
  with assms(2) have c: "is_digit c" by simp
  have lead: "dropWhile is_space ds = ds"
    using c is_digit_plain [of c] by (simp add: ds)
  have body: "takeWhile (\<lambda>c. is_digit c \<or> c = CHR ''_'') ds = ds"
    using assms(2) by (simp add: list_all_iff)
  have rest: "dropWhile (\<lambda>c. is_digit c \<or> c = CHR ''_'') ds = []"
    using assms(2) by (simp add: list_all_iff)
  have only: "filter is_digit ds = ds"
    using assms(2) by (simp add: list_all_iff)
  have shape: "numeral_shape False ds"
    using assms(1,2) by (simp add: numeral_shape_digits)
  have sign: "c \<noteq> CHR ''-'' \<and> c \<noteq> CHR ''+''"
    using c is_digit_plain [of c] by simp
  have t: "dropWhile is_space (c # cs) = c # cs"
    using lead by (simp add: ds)
  show ?thesis
    unfolding py_int_def t [folded ds] Let_def
    using body rest only shape sign assms(3) by (simp add: ds)
qed

lemma parse_availability_two_fields:
  assumes "split (CHR ''/'') s = p # q # others"
  shows "parse_availability s =
           (case py_int p of Inl e \<Rightarrow> (0, 0)
            | Inr x \<Rightarrow> (case py_int q of Inl e \<Rightarrow> (0, 0) | Inr y \<Rightarrow> (x, y)))"
  using assms
  by (simp add: parse_availability_def parse_availability_try_def item_def split: sum.splits)

lemma parse_availability_one_field:
  assumes "CHR ''/'' \<notin> set s"
  shows "parse_availability s = (0, 0)"
  using split_without_sep [OF assms]
  by (simp add: parse_availability_def parse_availability_try_def item_def split: sum.splits)

lemma parse_availability_digits:
  assumes "a \<noteq> []" "list_all is_digit a" "length a \<le> int_max_str_digits"
      and "b \<noteq> []" "list_all is_digit b" "length b \<le> int_max_str_digits"
  shows "parse_availability (a @ ''/'' @ b) = (decimal a, decimal b)"
proof -
  have "split (CHR ''/'') (a @ ''/'' @ b) = [a, b]"
    using digits_without_slash [OF assms(2)] digits_without_slash [OF assms(5)]
    by (simp add: split_at_first_sep split_without_sep)
  then show ?thesis
    using py_int_digits [OF assms(1,2,3)] py_int_digits [OF assms(4,5,6)]
    by (simp add: parse_availability_two_fields)
qed

subsection \<open>Facts about the two tables\<close>

lemma code_truncate [simp]: "code (Course.truncate r) = code r"
  by (simp add: Course.defs)

lemma available_spots_truncate [simp]: "available_spots (Course.truncate r) = available_spots r"
  by (simp add: Course.defs)

lemma truncate_extend [simp]: "Course.truncate (Course.extend course x) = course"
  by (simp add: Course.defs)

lemma code_extend [simp]: "code (Course.extend course x) = code course"
  by (simp add: Course.defs)









lemma user_watchlist_insert [simp]:
  "user_watchlist (insert_or_replace_course clock course d) = user_watchlist d"
  by (simp add: insert_or_replace_course_def Let_def)

lemma user_watchlist_save [simp]:
  "user_watchlist (save_courses_to_db clock cs d) = user_watchlist d"
  unfolding save_courses_to_db_def by (induction cs arbitrary: d) simp_all

lemma courses_remove [simp]: "courses (remove_from_watchlist k d) = courses d"
  by (simp add: remove_from_watchlist_def)

lemma user_watchlist_remove [simp]:
  "user_watchlist (remove_from_watchlist k d) = filter (\<lambda>r. course_code r \<noteq> k) (user_watchlist d)"
  by (simp add: remove_from_watchlist_def)

lemma user_watchlist_add:
  "user_watchlist (add_to_watchlist clock k p a d) =
     user_watchlist d @
       [\<lparr>watch_id = next_rowid (user_watchlist_seq d) (map watch_id (user_watchlist d)),
         course_code = k,
         priority = (case p of None \<Rightarrow> 1 | Some n \<Rightarrow> n),
         auto_register = (case a of None \<Rightarrow> False | Some b \<Rightarrow> b),
         added_date = clock (next_rowid (user_watchlist_seq d) (map watch_id (user_watchlist d)))\<rparr>]"
  by (simp add: add_to_watchlist_def Let_def)



subsection \<open>Facts about a registration attempt\<close>


subsection \<open>Facts about the scan of the watchlist\<close>

lemma attempts_append: "attempts (xs @ ys) = attempts xs @ attempts ys"
  by (induction xs rule: attempts.induct) simp_all

lemma attempts_Say [simp]: "attempts (map Say ms) = []"
  by (induction ms) simp_all


lemma has_open_spots_remove [simp]:
  "has_open_spots k' (remove_from_watchlist k d) = has_open_spots k' d"
  by (simp add: has_open_spots_def check_course_availability_def)

lemma monitor_scan_Cons:
  "monitor_scan w (k # wl) s =
     (if has_open_spots k (store s) then
        (let r = attempt_registration k (on_register w (driver_calls s));
             s2 = (if fst r
                   then s\<lparr>driver_calls := driver_calls s + 1,
                          store := remove_from_watchlist k (store s)\<rparr>
                   else s\<lparr>driver_calls := driver_calls s + 1\<rparr>)
         in (Attempt k # map Say (snd r) @ fst (monitor_scan w wl s2),
             snd (monitor_scan w wl s2)))
      else monitor_scan w wl s)"
  by (simp add: has_open_spots_def Let_def split: option.splits prod.splits)

lemma monitor_scan_courses:
  "courses (store (snd (monitor_scan w wl s))) = courses (store s)"
proof (induction wl arbitrary: s)
  case Nil
  show ?case by simp
next
  case (Cons k wl)
  show ?case
    by (simp add: monitor_scan_Cons Let_def Cons.IH del: monitor_scan.simps)
qed

lemma attempts_of_scan:
  "attempts (fst (monitor_scan w wl s)) = filter (\<lambda>k. has_open_spots k (store s)) wl"
proof (induction wl arbitrary: s)
  case Nil
  show ?case by simp
next
  case (Cons k wl)
  show ?case
    by (simp add: monitor_scan_Cons Let_def Cons.IH attempts_append
        del: monitor_scan.simps)
qed


lemma monitor_scan_quiet:
  "\<forall>e \<in> set (fst (monitor_scan w wl s)). \<not> is_sleep e \<and> e \<noteq> Refresh \<and> \<not> is_opening e"
proof (induction wl arbitrary: s)
  case Nil
  show ?case by simp
next
  case (Cons k wl)
  show ?case
    using Cons.IH by (auto simp: monitor_scan_Cons Let_def simp del: monitor_scan.simps)
qed

subsection \<open>Facts about the loop\<close>

lemma monitor_iteration_Inr:
  assumes "monitor_iteration w s = Inr (evs, s')"
  shows "\<exists>wl s2. user_watchlist (store s2) = user_watchlist (store s)
           \<and> evs = Refresh # fst (monitor_scan w wl s2) \<and> s' = snd (monitor_scan w wl s2)"
proof -
  define s2 where "s2 = s\<lparr>driver_calls := driver_calls s + 1 + 1,
      store := save_courses_to_db (courses_clock w)
                 (scrape_course_data (on_scrape w (driver_calls s + 1))) (store s)\<rparr>"
  define wl where "wl = get_watchlist_courses (store s2)"
  from assms have "on_refresh w (driver_calls s) = None"
    by (simp add: monitor_iteration_def split: option.splits)
  then have "monitor_iteration w s = Inr (Refresh # fst (monitor_scan w wl s2), snd (monitor_scan w wl s2))"
    by (simp add: monitor_iteration_def Let_def s2_def wl_def split: prod.splits)
  with assms have "evs = Refresh # fst (monitor_scan w wl s2)" "s' = snd (monitor_scan w wl s2)"
    by simp_all
  moreover have "user_watchlist (store s2) = user_watchlist (store s)"
    by (simp add: s2_def)
  ultimately show ?thesis by blast
qed

lemma monitor_iteration_events:
  assumes "monitor_iteration w s = Inr (evs, s')"
  shows "\<exists>acted. evs = Refresh # acted
           \<and> (\<forall>e \<in> set acted. \<not> is_sleep e \<and> e \<noteq> Refresh \<and> \<not> is_opening e)"
  using monitor_iteration_Inr [OF assms] monitor_scan_quiet by blast


lemma sleeps_between_quiet:
  "\<forall>e \<in> set xs. \<not> is_sleep e \<Longrightarrow> sleeps_between n (xs @ ys) = sleeps_between n ys"
  by (induction n xs rule: sleeps_between.induct) simp_all

lemma sleeps_between_last:
  "sleeps_between n evs \<Longrightarrow> evs \<noteq> [] \<Longrightarrow> \<not> is_sleep (last evs)"
  by (induction n evs rule: sleeps_between.induct) (auto split: list.splits event.splits)

lemma monitor_loop_stop:
  "\<not> attempt < max_attempts \<Longrightarrow> monitor_loop w max_attempts delay attempt s = (None, [], s)"
  by (subst monitor_loop.simps) simp

lemma monitor_loop_unfold:
  assumes "attempt < max_attempts"
  shows "monitor_loop w max_attempts delay attempt s =
     (case monitor_iteration w s of
        Inl e \<Rightarrow> (Some e, [Monitoring (attempt + 1) max_attempts], s)
      | Inr (acted, s1) \<Rightarrow>
          if attempt + 1 < max_attempts \<and> delay < 0
          then (Some ValueError, Monitoring (attempt + 1) max_attempts # acted, s1)
          else (fst (monitor_loop w max_attempts delay (attempt + 1) s1),
                Monitoring (attempt + 1) max_attempts # acted
                  @ (if attempt + 1 < max_attempts then [Sleep delay] else [])
                  @ fst (snd (monitor_loop w max_attempts delay (attempt + 1) s1)),
                snd (snd (monitor_loop w max_attempts delay (attempt + 1) s1))))"
  by (subst monitor_loop.simps) (simp add: assms Let_def split: sum.splits prod.splits)

lemma monitor_loop_opens:
  assumes "attempt < max_attempts"
  shows "\<exists>rest. fst (snd (monitor_loop w max_attempts delay attempt s))
           = Monitoring (attempt + 1) max_attempts # rest"
  by (simp add: monitor_loop_unfold [OF assms] split: sum.splits prod.splits)
lemma monitor_loop_run:
  assumes "nat (max_attempts - attempt) = n"
  shows "length (filter (\<lambda>e. e = Refresh) (fst (snd (monitor_loop w max_attempts delay attempt s)))) \<le> n
    \<and> (fst (monitor_loop w max_attempts delay attempt s) = None \<longrightarrow>
         length (filter (\<lambda>e. e = Refresh) (fst (snd (monitor_loop w max_attempts delay attempt s)))) = n)
    \<and> length (filter is_sleep (fst (snd (monitor_loop w max_attempts delay attempt s)))) \<le> n - 1
    \<and> (fst (monitor_loop w max_attempts delay attempt s) = None \<longrightarrow>
         length (filter is_sleep (fst (snd (monitor_loop w max_attempts delay attempt s)))) = n - 1)
    \<and> sleeps_between max_attempts (fst (snd (monitor_loop w max_attempts delay attempt s)))
    \<and> (\<forall>e \<in> set (fst (snd (monitor_loop w max_attempts delay attempt s))). is_sleep e \<longrightarrow> e = Sleep delay)"
  using assms
proof (induction n arbitrary: attempt s)
  case 0
  then have "\<not> attempt < max_attempts" by simp
  then show ?case by (simp add: monitor_loop_stop)
next
  case (Suc n)
  then have less: "attempt < max_attempts" by simp
  from Suc.prems have n: "nat (max_attempts - (attempt + 1)) = n" by simp
  show ?case
  proof (cases "monitor_iteration w s")
    case (Inl e)
    then show ?thesis by (simp add: monitor_loop_unfold [OF less])
  next
    case (Inr r)
    obtain acted s1 where r: "r = (acted, s1)" by (cases r)
    from monitor_iteration_events [OF Inr [unfolded r]] obtain acted'
      where acted: "acted = Refresh # acted'"
        and quiet: "\<forall>e \<in> set acted'. \<not> is_sleep e \<and> e \<noteq> Refresh \<and> \<not> is_opening e"
      by blast
    from quiet have no_refresh: "filter (\<lambda>e. e = Refresh) acted' = []"
      and no_sleep: "filter is_sleep acted' = []"
      by (simp_all add: filter_empty_conv)
    from quiet have between: "\<And>ys. sleeps_between max_attempts (acted' @ ys) = sleeps_between max_attempts ys"
      by (simp add: sleeps_between_quiet)
    from quiet have not_sleep: "\<forall>e \<in> set acted'. \<not> is_sleep e" by simp
    show ?thesis
    proof (cases "attempt + 1 < max_attempts")
      case False
      then have stop: "monitor_loop w max_attempts delay (attempt + 1) s1 = (None, [], s1)"
        by (rule monitor_loop_stop)
      from False n have "n = 0" by simp
      with False stop between [of "[]"] no_refresh no_sleep not_sleep show ?thesis
        by (simp add: monitor_loop_unfold [OF less] Inr r acted)
    next
      case True
      with n have pos: "0 < n" by simp
      show ?thesis
      proof (cases "delay < 0")
        case neg: True
        with True between [of "[]"] no_refresh no_sleep not_sleep show ?thesis
          by (simp add: monitor_loop_unfold [OF less] Inr r acted)
      next
        case nonneg: False
        from monitor_loop_opens [OF True] obtain rest
          where opens: "fst (snd (monitor_loop w max_attempts delay (attempt + 1) s1))
                          = Monitoring (attempt + 1 + 1) max_attempts # rest"
          by blast
        define raised where "raised = fst (monitor_loop w max_attempts delay (attempt + 1) s1)"
        define later where "later = fst (snd (monitor_loop w max_attempts delay (attempt + 1) s1))"
        define evs where "evs = Monitoring (attempt + 1) max_attempts # Refresh # acted' @ Sleep delay # later"
        from Suc.IH [OF n, of s1]
        have r1: "length (filter (\<lambda>e. e = Refresh) later) \<le> n"
          and r2: "raised = None \<longrightarrow> length (filter (\<lambda>e. e = Refresh) later) = n"
          and p1: "length (filter is_sleep later) \<le> n - 1"
          and p2: "raised = None \<longrightarrow> length (filter is_sleep later) = n - 1"
          and b: "sleeps_between max_attempts later"
          and d: "\<forall>e \<in> set later. is_sleep e \<longrightarrow> e = Sleep delay"
          by (simp_all add: raised_def later_def)
        have unfold: "monitor_loop w max_attempts delay attempt s =
            (raised, evs, snd (snd (monitor_loop w max_attempts delay (attempt + 1) s1)))"
          using True nonneg
          by (simp add: monitor_loop_unfold [OF less] Inr r acted raised_def later_def evs_def)
        have c1: "length (filter (\<lambda>e. e = Refresh) evs) = Suc (length (filter (\<lambda>e. e = Refresh) later))"
          by (simp add: evs_def no_refresh)
        have c2: "length (filter is_sleep evs) = Suc (length (filter is_sleep later))"
          by (simp add: evs_def no_sleep)
        from c1 r1 have g1: "length (filter (\<lambda>e. e = Refresh) evs) \<le> Suc n" by simp
        from c1 r2 have g2: "raised = None \<longrightarrow> length (filter (\<lambda>e. e = Refresh) evs) = Suc n" by simp
        from c2 p1 pos have g3: "length (filter is_sleep evs) \<le> Suc n - 1" by simp
        from c2 p2 pos have g4: "raised = None \<longrightarrow> length (filter is_sleep evs) = Suc n - 1" by simp
        have g5: "sleeps_between max_attempts evs"
          using b True opens by (simp add: evs_def between later_def)
        have g6: "\<forall>e \<in> set evs. is_sleep e \<longrightarrow> e = Sleep delay"
          using d not_sleep by (auto simp: evs_def)
        from g1 g2 g3 g4 g5 g6 show ?thesis
          unfolding unfold by simp
      qed
    qed
  qed
qed

lemma monitor_loop_openings:
  assumes "nat (max_attempts - attempt) = n"
  shows "length (filter is_opening (fst (snd (monitor_loop w max_attempts delay attempt s)))) \<le> n"
  using assms
proof (induction n arbitrary: attempt s)
  case 0
  then have "\<not> attempt < max_attempts" by simp
  then show ?case by (simp add: monitor_loop_stop)
next
  case (Suc n)
  then have less: "attempt < max_attempts" by simp
  from Suc.prems have n: "nat (max_attempts - (attempt + 1)) = n" by simp
  show ?case
  proof (cases "monitor_iteration w s")
    case (Inl e)
    then show ?thesis by (simp add: monitor_loop_unfold [OF less])
  next
    case (Inr r)
    obtain acted s1 where r: "r = (acted, s1)" by (cases r)
    from monitor_iteration_events [OF Inr [unfolded r]] obtain acted'
      where acted: "acted = Refresh # acted'"
        and quiet: "\<forall>e \<in> set acted'. \<not> is_sleep e \<and> e \<noteq> Refresh \<and> \<not> is_opening e"
      by blast
    from quiet have none: "filter is_opening acted' = []"
      by (simp add: filter_empty_conv)
    from Suc.IH [OF n, of s1] none show ?thesis
      by (simp add: monitor_loop_unfold [OF less] Inr r acted)
  qed
qed




subsection \<open>Evaluating a run on the example data\<close>

lemmas run_defs =
  monitor_and_register_def monitor_loop.simps monitor_iteration_def
  scrape_course_data_def scrape_row_def
  parse_availability_def parse_availability_try_def item_def py_int_def
  is_digit_def is_space_def decimal_def digit_value_def int_max_str_digits_def
  save_courses_to_db_def insert_or_replace_course_def next_rowid_def setup_database_def
  add_to_watchlist_def get_watchlist_courses_def watchlist_by_priority_def
  check_course_availability_def remove_from_watchlist_def
  attempt_registration_def attempt_registration_try_def
  Let_def Course.defs course_row.defs

lemmas example_defs =
  example_course_def example_clock_def example_row_def example_surroundings_def
  example_session_def twice_added_session_def
  confirming_page_def rejecting_page_def silent_page_def

section \<open>What the availability parser returns\<close>

text \<open>
  C3, as stated, asks for \<open>(0, 0)\<close> on every text that is not exactly two non-negative
  numerals around one separator. The parser reads the first two fields and nothing
  else, and \<^verbatim>\<open>int\<close> takes a sign: a third field is ignored and a negative numeral is
  returned as it is.
\<close>

theorem parse_availability_other_forms_counterexample:
  "parse_availability ''1/2/3'' = (1, 2) \<and> parse_availability ''1/2/3'' \<noteq> (0, 0)
   \<and> parse_availability ''-1/5'' = (- 1, 5) \<and> parse_availability ''-1/5'' \<noteq> (0, 0)"
  by (simp add: parse_availability_def parse_availability_try_def item_def py_int_def
      is_digit_def is_space_def decimal_def digit_value_def int_max_str_digits_def)

text \<open>
  C3, amended: \<open>parse_availability\<close> is a total function. On two non-negative decimal
  numerals \<open>a\<close> and \<open>b\<close> (each within the digit limit of \<^verbatim>\<open>int\<close>) around one separator it
  returns the numbers they denote. It returns \<open>(0, 0)\<close> on a text without separator
  and on a text one of whose first two fields \<^verbatim>\<open>int\<close> rejects. Whenever \<^verbatim>\<open>int\<close> accepts
  the first two fields it returns their values, whatever follows the second field.
\<close>

theorem parse_availability_fields:
  "(a \<noteq> [] \<and> list_all is_digit a \<and> length a \<le> int_max_str_digits \<and>
    b \<noteq> [] \<and> list_all is_digit b \<and> length b \<le> int_max_str_digits
      \<longrightarrow> parse_availability (a @ ''/'' @ b) = (decimal a, decimal b))
   \<and> (CHR ''/'' \<notin> set s \<longrightarrow> parse_availability s = (0, 0))
   \<and> (split (CHR ''/'') t = p # q # others \<and> (py_int p = Inl e \<or> py_int q = Inl e)
      \<longrightarrow> parse_availability t = (0, 0))
   \<and> (split (CHR ''/'') t' = p' # q' # others' \<and> py_int p' = Inr x \<and> py_int q' = Inr y
      \<longrightarrow> parse_availability t' = (x, y))"
proof (intro conjI impI)
  assume "a \<noteq> [] \<and> list_all is_digit a \<and> length a \<le> int_max_str_digits \<and>
    b \<noteq> [] \<and> list_all is_digit b \<and> length b \<le> int_max_str_digits"
  then show "parse_availability (a @ ''/'' @ b) = (decimal a, decimal b)"
    using parse_availability_digits [of a b] by blast
next
  assume "CHR ''/'' \<notin> set s"
  then show "parse_availability s = (0, 0)"
    by (rule parse_availability_one_field)
next
  assume h: "split (CHR ''/'') t = p # q # others \<and> (py_int p = Inl e \<or> py_int q = Inl e)"
  then have "split (CHR ''/'') t = p # q # others" by simp
  from parse_availability_two_fields [OF this] h show "parse_availability t = (0, 0)"
    by (auto split: sum.splits)
next
  assume h: "split (CHR ''/'') t' = p' # q' # others' \<and> py_int p' = Inr x \<and> py_int q' = Inr y"
  then have "split (CHR ''/'') t' = p' # q' # others'" by simp
  from parse_availability_two_fields [OF this] h show "parse_availability t' = (x, y)"
    by simp
qed

theorem parse_availability_fields_witness:
  "parse_availability ''15/30'' = (15, 30) \<and> parse_availability ''abc'' = (0, 0)
   \<and> parse_availability ''x/2'' = (0, 0) \<and> parse_availability ''1/2/3'' = (1, 2)"
proof -
  have h1: "''15'' \<noteq> [] \<and> list_all is_digit ''15'' \<and> length ''15'' \<le> int_max_str_digits \<and>
    ''30'' \<noteq> [] \<and> list_all is_digit ''30'' \<and> length ''30'' \<le> int_max_str_digits"
    by (simp add: is_digit_def int_max_str_digits_def)
  have h2: "CHR ''/'' \<notin> set ''abc''" by simp
  have h3: "split (CHR ''/'') ''x/2'' = ''x'' # ''2'' # [] \<and>
    (py_int ''x'' = Inl ValueError \<or> py_int ''2'' = Inl ValueError)"
    by (simp add: py_int_def is_digit_def is_space_def)
  have h4: "split (CHR ''/'') ''1/2/3'' = ''1'' # ''2'' # [''3''] \<and>
    py_int ''1'' = Inr 1 \<and> py_int ''2'' = Inr 2"
    by (simp add: py_int_def is_digit_def is_space_def decimal_def digit_value_def
        int_max_str_digits_def)
  have d: "decimal ''15'' = 15 \<and> decimal ''30'' = 30"
    by (simp add: decimal_def digit_value_def)
  from parse_availability_fields [of "''15''" "''30''" "''abc''" "''x/2''" "''x''" "''2''" "[]"
      ValueError "''1/2/3''" "''1''" "''2''" "[''3'']" 1 2] h1 h2 h3 h4 d
  show ?thesis by simp
qed

text \<open>
  C4, as stated, asks that the returned pair always has
  \<open>0 \<le> availableSpots \<le> totalSpots\<close>. The parser compares nothing: on \<^verbatim>\<open>30/15\<close> it
  returns more available than total spots.
\<close>

theorem parse_availability_bound_counterexample:
  "parse_availability ''30/15'' = (30, 15)
   \<and> \<not> (fst (parse_availability ''30/15'') \<le> snd (parse_availability ''30/15''))"
  by (simp add: parse_availability_def parse_availability_try_def item_def py_int_def
      is_digit_def is_space_def decimal_def digit_value_def int_max_str_digits_def)

text \<open>
  C4, amended: whenever the body of the parser raises (no separator, a field that
  \<^verbatim>\<open>int\<close> rejects) the returned pair is \<open>(0, 0)\<close>, which lies within the bound. On two
  non-negative numerals \<open>a\<close> and \<open>b\<close> around one separator the first component is not
  negative, and it is at most the second exactly when \<open>a\<close> is at most \<open>b\<close>: the
  parser returns what is written and does not normalise it.
\<close>

theorem parse_availability_bound:
  "(parse_availability_try s = Inl e \<longrightarrow>
      parse_availability s = (0, 0)
      \<and> 0 \<le> fst (parse_availability s) \<and> fst (parse_availability s) \<le> snd (parse_availability s))
   \<and> (a \<noteq> [] \<and> list_all is_digit a \<and> length a \<le> int_max_str_digits \<and>
      b \<noteq> [] \<and> list_all is_digit b \<and> length b \<le> int_max_str_digits
      \<longrightarrow> 0 \<le> fst (parse_availability (a @ ''/'' @ b))
        \<and> (fst (parse_availability (a @ ''/'' @ b)) \<le> snd (parse_availability (a @ ''/'' @ b))
             \<longleftrightarrow> decimal a \<le> decimal b))"
proof (intro conjI impI)
  assume "parse_availability_try s = Inl e"
  then show "parse_availability s = (0, 0)"
    and "0 \<le> fst (parse_availability s)"
    and "fst (parse_availability s) \<le> snd (parse_availability s)"
    by (simp_all add: parse_availability_def)
next
  assume h: "a \<noteq> [] \<and> list_all is_digit a \<and> length a \<le> int_max_str_digits \<and>
      b \<noteq> [] \<and> list_all is_digit b \<and> length b \<le> int_max_str_digits"
  then have eq: "parse_availability (a @ ''/'' @ b) = (decimal a, decimal b)"
    using parse_availability_digits [of a b] by blast
  from h have "0 \<le> decimal a" by (simp add: decimal_nonneg)
  with eq show "0 \<le> fst (parse_availability (a @ ''/'' @ b))" by simp
  from eq show "fst (parse_availability (a @ ''/'' @ b)) \<le> snd (parse_availability (a @ ''/'' @ b))
             \<longleftrightarrow> decimal a \<le> decimal b" by simp
qed

theorem parse_availability_bound_witness:
  "parse_availability ''15/x'' = (0, 0)
   \<and> fst (parse_availability ''15/30'') \<le> snd (parse_availability ''15/30'')
   \<and> \<not> fst (parse_availability ''30/15'') \<le> snd (parse_availability ''30/15'')"
proof -
  have h1: "parse_availability_try ''15/x'' = Inl ValueError"
    by (simp add: parse_availability_try_def item_def py_int_def is_digit_def is_space_def
        decimal_def digit_value_def int_max_str_digits_def)
  have h2: "''15'' \<noteq> [] \<and> list_all is_digit ''15'' \<and> length ''15'' \<le> int_max_str_digits \<and>
    ''30'' \<noteq> [] \<and> list_all is_digit ''30'' \<and> length ''30'' \<le> int_max_str_digits"
    by (simp add: is_digit_def int_max_str_digits_def)
  have h3: "''30'' \<noteq> [] \<and> list_all is_digit ''30'' \<and> length ''30'' \<le> int_max_str_digits \<and>
    ''15'' \<noteq> [] \<and> list_all is_digit ''15'' \<and> length ''15'' \<le> int_max_str_digits"
    by (simp add: is_digit_def int_max_str_digits_def)
  have d: "decimal ''15'' = 15 \<and> decimal ''30'' = 30"
    by (simp add: decimal_def digit_value_def)
  from parse_availability_bound [of "''15/x''" ValueError "''15''" "''30''"]
    parse_availability_bound [of "''15/x''" ValueError "''30''" "''15''"] h1 h2 h3 d
  show ?thesis by simp
qed

section \<open>The courses table\<close>




section \<open>The watchlist table\<close>

text \<open>
  C2 says that adding a code a second time replaces the row of that code. The
  statement in \<^verbatim>\<open>add_to_watchlist\<close> is \<^verbatim>\<open>INSERT OR REPLACE\<close>, but \<^verbatim>\<open>course_code\<close> is not
  declared \<^verbatim>\<open>UNIQUE\<close> (as \<^verbatim>\<open>code\<close> is in \<^verbatim>\<open>courses\<close>), so nothing is ever replaced:
  after two calls with the same code, whatever the other arguments and the table
  before, the table ends in two rows of that code. On a new database and the code
  \<^verbatim>\<open>CSCI1030U\<close> this gives two rows, and the first keeps its \<^verbatim>\<open>added_date\<close>.
\<close>

theorem add_to_watchlist_twice_two_rows:
  "map course_code (user_watchlist
      (add_to_watchlist clock' k p' a' (add_to_watchlist clock k p a d)))
     = map course_code (user_watchlist d) @ [k, k]
   \<and> \<not> distinct (map course_code (user_watchlist
      (add_to_watchlist clock' k p' a' (add_to_watchlist clock k p a d))))
   \<and> map (\<lambda>r. (watch_id r, course_code r, added_date r)) (user_watchlist
      (add_to_watchlist example_clock ''CSCI1030U'' (Some 1) None
        (add_to_watchlist example_clock ''CSCI1030U'' (Some 1) None (setup_database None))))
     = [(1, ''CSCI1030U'', 10), (2, ''CSCI1030U'', 20)]"
  by (simp add: user_watchlist_add add_to_watchlist_def Let_def setup_database_def
      next_rowid_def example_clock_def)




section \<open>A registration attempt\<close>

text \<open>
  C8, as stated, says that the returned outcome tells three cases apart and keeps the
  reason of a rejection. The method returns a boolean: a rejection with one reason, a
  rejection with another reason and a page that shows neither message all return
  \<open>False\<close>, and the reason is only printed.
\<close>

theorem attempt_registration_same_value_counterexample:
  "attempt_registration ''CSCI1030U'' (rejecting_page ''Course full'')
     = (False, [RegistrationFailed ''CSCI1030U'' ''Course full''])
   \<and> attempt_registration ''CSCI1030U'' (rejecting_page ''Prerequisite not met'')
     = (False, [RegistrationFailed ''CSCI1030U'' ''Prerequisite not met''])
   \<and> attempt_registration ''CSCI1030U'' silent_page
     = (False, [AttemptFailed (WebDriverException ''no such element'')])
   \<and> fst (attempt_registration ''CSCI1030U'' (rejecting_page ''Course full''))
     = fst (attempt_registration ''CSCI1030U'' silent_page)"
  by (simp add: attempt_registration_def attempt_registration_try_def rejecting_page_def
      silent_page_def)

text \<open>
  C8, amended: \<^verbatim>\<open>attempt_registration\<close> always returns a boolean and never raises.
  It returns \<open>True\<close> exactly when the button is found, the click goes through and the
  success message appears within the wait, and then prints the success line. In every
  other case it returns \<open>False\<close>: the returned value does not tell a rejection from a
  page that shows neither message, and it carries no reason. The two differ in the
  printed line only: after a rejection the line holds the text of the error message
  as the page shows it; where no error message is found, or the button is not found,
  or the click fails, the line holds the exception.
\<close>

theorem attempt_registration_outcome:
  "(fst (attempt_registration k page) \<longleftrightarrow>
      find_register_btn page = None \<and> click_register_btn page = None
      \<and> wait_success_message page = None)
   \<and> (fst (attempt_registration k page) \<longrightarrow>
        attempt_registration k page = (True, [Registered k]))
   \<and> (find_register_btn page = None \<and> click_register_btn page = None
      \<and> wait_success_message page = Some e \<and> find_error_message page = Inr reason
      \<longrightarrow> attempt_registration k page = (False, [RegistrationFailed k reason]))
   \<and> (find_register_btn page = None \<and> click_register_btn page = None
      \<and> wait_success_message page = Some e \<and> find_error_message page = Inl e'
      \<longrightarrow> attempt_registration k page = (False, [AttemptFailed e']))
   \<and> (find_register_btn page = Some e
      \<longrightarrow> attempt_registration k page = (False, [AttemptFailed e]))
   \<and> (find_register_btn page = None \<and> click_register_btn page = Some e
      \<longrightarrow> attempt_registration k page = (False, [AttemptFailed e]))"
  by (auto simp: attempt_registration_def attempt_registration_try_def
      split: option.splits sum.splits)

theorem attempt_registration_outcome_witness:
  "attempt_registration ''CSCI1030U'' confirming_page = (True, [Registered ''CSCI1030U''])
   \<and> attempt_registration ''CSCI1030U'' (rejecting_page ''Course full'')
     = (False, [RegistrationFailed ''CSCI1030U'' ''Course full''])
   \<and> attempt_registration ''CSCI1030U'' silent_page
     = (False, [AttemptFailed (WebDriverException ''no such element'')])
   \<and> attempt_registration ''CSCI1030U''
       (confirming_page\<lparr>find_register_btn := Some (WebDriverException ''no button'')\<rparr>)
     = (False, [AttemptFailed (WebDriverException ''no button'')])
   \<and> attempt_registration ''CSCI1030U''
       (confirming_page\<lparr>click_register_btn := Some (WebDriverException ''not clickable'')\<rparr>)
     = (False, [AttemptFailed (WebDriverException ''not clickable'')])"
proof -
  have h1: "find_register_btn confirming_page = None \<and> click_register_btn confirming_page = None
      \<and> wait_success_message confirming_page = None"
    by (simp add: confirming_page_def)
  have h2: "find_register_btn (rejecting_page ''Course full'') = None
      \<and> click_register_btn (rejecting_page ''Course full'') = None
      \<and> wait_success_message (rejecting_page ''Course full'') = Some (WebDriverException ''timeout'')
      \<and> find_error_message (rejecting_page ''Course full'') = Inr ''Course full''"
    by (simp add: rejecting_page_def)
  have h3: "find_register_btn silent_page = None \<and> click_register_btn silent_page = None
      \<and> wait_success_message silent_page = Some (WebDriverException ''timeout'')
      \<and> find_error_message silent_page = Inl (WebDriverException ''no such element'')"
    by (simp add: silent_page_def)
  have h4: "find_register_btn
       (confirming_page\<lparr>find_register_btn := Some (WebDriverException ''no button'')\<rparr>)
     = Some (WebDriverException ''no button'')"
    by simp
  have h5: "find_register_btn
       (confirming_page\<lparr>click_register_btn := Some (WebDriverException ''not clickable'')\<rparr>) = None
     \<and> click_register_btn
       (confirming_page\<lparr>click_register_btn := Some (WebDriverException ''not clickable'')\<rparr>)
     = Some (WebDriverException ''not clickable'')"
    by (simp add: confirming_page_def)
  from attempt_registration_outcome [of "''CSCI1030U''" confirming_page] h1
  have c1: "attempt_registration ''CSCI1030U'' confirming_page = (True, [Registered ''CSCI1030U''])"
    by blast
  from attempt_registration_outcome [of "''CSCI1030U''" "rejecting_page ''Course full''"
      "WebDriverException ''timeout''" "''Course full''"] h2
  have c2: "attempt_registration ''CSCI1030U'' (rejecting_page ''Course full'')
     = (False, [RegistrationFailed ''CSCI1030U'' ''Course full''])"
    by blast
  from attempt_registration_outcome [of "''CSCI1030U''" silent_page
      "WebDriverException ''timeout''" _ "WebDriverException ''no such element''"] h3
  have c3: "attempt_registration ''CSCI1030U'' silent_page
     = (False, [AttemptFailed (WebDriverException ''no such element'')])"
    by blast
  from attempt_registration_outcome [of "''CSCI1030U''"
      "confirming_page\<lparr>find_register_btn := Some (WebDriverException ''no button'')\<rparr>"
      "WebDriverException ''no button''"] h4
  have c4: "attempt_registration ''CSCI1030U''
       (confirming_page\<lparr>find_register_btn := Some (WebDriverException ''no button'')\<rparr>)
     = (False, [AttemptFailed (WebDriverException ''no button'')])"
    by blast
  from attempt_registration_outcome [of "''CSCI1030U''"
      "confirming_page\<lparr>click_register_btn := Some (WebDriverException ''not clickable'')\<rparr>"
      "WebDriverException ''not clickable''"] h5
  have c5: "attempt_registration ''CSCI1030U''
       (confirming_page\<lparr>click_register_btn := Some (WebDriverException ''not clickable'')\<rparr>)
     = (False, [AttemptFailed (WebDriverException ''not clickable'')])"
    by blast
  from c1 c2 c3 c4 c5 show ?thesis by simp
qed
section \<open>The scan of the watchlist\<close>

text \<open>
  C1, as stated, says that a registration is attempted for a watchlist entry only if
  its \<^verbatim>\<open>auto_register\<close> flag is set. No statement of the program reads that column.
  With the example course stored with 5 of 30 spots open and one watchlist row for it
  whose flag is \<open>False\<close>, one iteration of the loop calls \<^verbatim>\<open>attempt_registration\<close>
  for it.
\<close>

theorem monitor_auto_register_counterexample:
  "map (\<lambda>r. (course_code r, auto_register r)) (user_watchlist (store example_session))
     = [(''CSCI1030U'', False)]
   \<and> fst (snd (monitor_and_register (example_surroundings (\<lambda>k. confirming_page))
                (Some 1) None example_session))
     = [Monitoring 1 1, Refresh, Attempt ''CSCI1030U'', Say (Registered ''CSCI1030U'')]"
  by (simp add: run_defs example_defs)

text \<open>
  C1, amended: in the scan of an iteration, \<^verbatim>\<open>attempt_registration\<close> is called once
  for every row of the watchlist whose course code has a row in \<^verbatim>\<open>courses\<close> with
  \<^verbatim>\<open>available_spots > 0\<close>, in the order of the listing, and for no other row; the
  \<^verbatim>\<open>auto_register\<close> flag of the row plays no part. So a code is attempted if and only
  if some watchlist row has it and it has open spots.
\<close>

theorem monitor_scan_attempts:
  "attempts (fst (monitor_scan w (get_watchlist_courses (store s)) s))
     = map course_code
         (filter (\<lambda>r. has_open_spots (course_code r) (store s)) (watchlist_by_priority (store s)))
   \<and> (k \<in> set (attempts (fst (monitor_scan w (get_watchlist_courses (store s)) s)))
        \<longleftrightarrow> k \<in> course_code ` set (user_watchlist (store s)) \<and> has_open_spots k (store s))"
proof -
  have list: "attempts (fst (monitor_scan w (get_watchlist_courses (store s)) s))
     = map course_code
         (filter (\<lambda>r. has_open_spots (course_code r) (store s)) (watchlist_by_priority (store s)))"
    by (simp add: attempts_of_scan get_watchlist_courses_def filter_map comp_def)
  have "set (watchlist_by_priority (store s)) = set (user_watchlist (store s))"
    by (simp add: watchlist_by_priority_def)
  then have "k \<in> set (attempts (fst (monitor_scan w (get_watchlist_courses (store s)) s)))
        \<longleftrightarrow> k \<in> course_code ` set (user_watchlist (store s)) \<and> has_open_spots k (store s)"
    unfolding list by auto
  with list show ?thesis by simp
qed

text \<open>
  C6 says that an entry whose attempt fails stays in the watchlist unchanged. The
  watchlist can hold two rows of one code, since \<^verbatim>\<open>add_to_watchlist\<close> replaces
  nothing, and \<^verbatim>\<open>remove_from_watchlist\<close> deletes by code. With the example course
  added twice, a first attempt that is rejected and a second that is confirmed, one
  iteration leaves the watchlist empty: the row whose attempt failed is deleted with
  the other.
\<close>

theorem monitor_failed_row_removed:
  "map (\<lambda>r. (watch_id r, course_code r)) (user_watchlist (store twice_added_session))
     = [(1, ''CSCI1030U''), (2, ''CSCI1030U'')]
   \<and> fst (snd (monitor_and_register
        (example_surroundings (\<lambda>k. if k = 2 then rejecting_page ''Course full'' else confirming_page))
        (Some 1) None twice_added_session))
     = [Monitoring 1 1, Refresh,
        Attempt ''CSCI1030U'', Say (RegistrationFailed ''CSCI1030U'' ''Course full''),
        Attempt ''CSCI1030U'', Say (Registered ''CSCI1030U'')]
   \<and> user_watchlist (store (snd (snd (monitor_and_register
        (example_surroundings (\<lambda>k. if k = 2 then rejecting_page ''Course full'' else confirming_page))
        (Some 1) None twice_added_session)))) = []"
  by (simp add: run_defs example_defs)

section \<open>The bound on the loop\<close>

text \<open>
  C7: \<open>monitor_loop\<close> is a total function, whose termination is proved with its
  definition: \<open>max_attempts - attempt\<close> falls in every round. For every \<open>n\<close> and \<open>d\<close>,
  a call \<^verbatim>\<open>monitor_and_register(max_attempts=n, delay=d)\<close> refreshes the page, and so
  starts the scan, at most \<open>n\<close> times (no time for \<open>n \<le> 0\<close>), and exactly \<open>n\<close> times
  when no exception leaves the method; it opens at most \<open>n\<close> iterations. It sleeps at most \<open>n - 1\<close> times, each time for
  \<open>d\<close> seconds. Every sleep is directly followed by the opening line of a further
  iteration, whose number is at most \<open>n\<close>; so no sleep follows the last iteration.
\<close>

theorem monitor_and_register_bounded:
  "length (filter (\<lambda>e. e = Refresh) (fst (snd (monitor_and_register w (Some n) (Some d) s)))) \<le> nat n
   \<and> (fst (monitor_and_register w (Some n) (Some d) s) = None \<longrightarrow>
        length (filter (\<lambda>e. e = Refresh) (fst (snd (monitor_and_register w (Some n) (Some d) s)))) = nat n)
   \<and> length (filter is_opening (fst (snd (monitor_and_register w (Some n) (Some d) s)))) \<le> nat n
   \<and> length (filter is_sleep (fst (snd (monitor_and_register w (Some n) (Some d) s)))) \<le> nat n - 1
   \<and> (fst (monitor_and_register w (Some n) (Some d) s) = None \<longrightarrow>
        length (filter is_sleep (fst (snd (monitor_and_register w (Some n) (Some d) s)))) = nat n - 1)
   \<and> (\<forall>e \<in> set (fst (snd (monitor_and_register w (Some n) (Some d) s))). is_sleep e \<longrightarrow> e = Sleep d)
   \<and> sleeps_between n (fst (snd (monitor_and_register w (Some n) (Some d) s)))
   \<and> (fst (snd (monitor_and_register w (Some n) (Some d) s)) \<noteq> [] \<longrightarrow>
        \<not> is_sleep (last (fst (snd (monitor_and_register w (Some n) (Some d) s)))))"
proof -
  have n: "nat (n - 0) = nat n" by simp
  note run = monitor_loop_run [OF n, of w d s]
  note openings = monitor_loop_openings [OF n, of w d s]
  from run have "sleeps_between n (fst (snd (monitor_loop w n d 0 s)))" by simp
  then have "fst (snd (monitor_loop w n d 0 s)) \<noteq> [] \<longrightarrow>
      \<not> is_sleep (last (fst (snd (monitor_loop w n d 0 s))))"
    by (simp add: sleeps_between_last)
  with run openings show ?thesis
    by (simp add: monitor_and_register_def)
qed

theorem monitor_and_register_bounded_witness:
  "fst (monitor_and_register (example_surroundings (\<lambda>k. silent_page)) (Some 2) (Some 5)
        example_session) = None
   \<and> fst (snd (monitor_and_register (example_surroundings (\<lambda>k. silent_page)) (Some 2) (Some 5)
        example_session))
     = [Monitoring 1 2, Refresh, Attempt ''CSCI1030U'',
        Say (AttemptFailed (WebDriverException ''no such element'')),
        Sleep 5,
        Monitoring 2 2, Refresh, Attempt ''CSCI1030U'',
        Say (AttemptFailed (WebDriverException ''no such element''))]
   \<and> length (filter (\<lambda>e. e = Refresh)
        (fst (snd (monitor_and_register (example_surroundings (\<lambda>k. silent_page)) (Some 2) (Some 5)
          example_session)))) = 2
   \<and> length (filter is_sleep
        (fst (snd (monitor_and_register (example_surroundings (\<lambda>k. silent_page)) (Some 2) (Some 5)
          example_session)))) = 1"
proof -
  have raised: "fst (monitor_and_register (example_surroundings (\<lambda>k. silent_page)) (Some 2) (Some 5)
        example_session) = None"
    by (simp add: run_defs example_defs)
  have events: "fst (snd (monitor_and_register (example_surroundings (\<lambda>k. silent_page)) (Some 2) (Some 5)
        example_session))
     = [Monitoring 1 2, Refresh, Attempt ''CSCI1030U'',
        Say (AttemptFailed (WebDriverException ''no such element'')),
        Sleep 5,
        Monitoring 2 2, Refresh, Attempt ''CSCI1030U'',
        Say (AttemptFailed (WebDriverException ''no such element''))]"
    by (simp add: run_defs example_defs)
  from monitor_and_register_bounded [of "example_surroundings (\<lambda>k. silent_page)" 2 5
      example_session] raised
  have "length (filter (\<lambda>e. e = Refresh)
        (fst (snd (monitor_and_register (example_surroundings (\<lambda>k. silent_page)) (Some 2) (Some 5)
          example_session)))) = 2
    \<and> length (filter is_sleep
        (fst (snd (monitor_and_register (example_surroundings (\<lambda>k. silent_page)) (Some 2) (Some 5)
          example_session)))) = 1"
    by simp
  with raised events show ?thesis by simp
qed

section \<open>The flag of the rows the program adds\<close>



end
